theory Spec2Isabelle
  imports Main "HOL-Library.Word"
begin

unbundle bit_operations_syntax

section \<open>The host: byte order and the signedness of char\<close>

text \<open>
  apns.cpp copies integer objects into byte buffers with memcpy and formats a plain
  char with a printf directive. What these do depends on two properties of the host
  that C++ leaves to the implementation: the byte order of integer objects and
  whether plain char is signed. Both are fields of the platform the functions run on.
\<close>

type_synonym u8 = "8 word"
type_synonym u16 = "16 word"
type_synonym u32 = "32 word"

record platform =
  little_endian :: bool
  char_signed :: bool

definition x86_linux :: platform where
  "x86_linux = \<lparr>little_endian = True, char_signed = True\<rparr>"

definition big_endian_host :: platform where
  "big_endian_host = \<lparr>little_endian = False, char_signed = True\<rparr>"

definition NUL :: char where
  "NUL = CHR 0x00"

text \<open>The byte swaps behind htonl and htons on a little-endian host.\<close>

definition bswap_32 :: "u32 \<Rightarrow> u32" where
  "bswap_32 x =
     push_bit 24 (take_bit 8 x) OR push_bit 16 (take_bit 8 (drop_bit 8 x)) OR
     push_bit 8 (take_bit 8 (drop_bit 16 x)) OR drop_bit 24 x"

definition bswap_16 :: "u16 \<Rightarrow> u16" where
  "bswap_16 x = push_bit 8 (take_bit 8 x) OR drop_bit 8 x"

definition htonl :: "platform \<Rightarrow> u32 \<Rightarrow> u32" where
  "htonl plat x = (if little_endian plat then bswap_32 x else x)"

definition ntohl :: "platform \<Rightarrow> u32 \<Rightarrow> u32" where
  "ntohl plat x = (if little_endian plat then bswap_32 x else x)"

definition htons :: "platform \<Rightarrow> u16 \<Rightarrow> u16" where
  "htons plat x = (if little_endian plat then bswap_16 x else x)"

text \<open>
  The big-endian bytes of a value, and the object representation memcpy reads from
  (or writes to) an integer variable: the same bytes, reversed on a little-endian host.
\<close>

definition be_bytes32 :: "u32 \<Rightarrow> u8 list" where
  "be_bytes32 x = [ucast (drop_bit 24 x), ucast (drop_bit 16 x), ucast (drop_bit 8 x), ucast x]"

definition be_bytes16 :: "u16 \<Rightarrow> u8 list" where
  "be_bytes16 x = [ucast (drop_bit 8 x), ucast x]"

definition be_val32 :: "u8 list \<Rightarrow> u32" where
  "be_val32 bs = foldl (\<lambda>acc b. push_bit 8 acc OR ucast b) 0 (take 4 bs)"

definition be_val16 :: "u8 list \<Rightarrow> u16" where
  "be_val16 bs = foldl (\<lambda>acc b. push_bit 8 acc OR ucast b) 0 (take 2 bs)"

definition obj_bytes32 :: "platform \<Rightarrow> u32 \<Rightarrow> u8 list" where
  "obj_bytes32 plat x = (if little_endian plat then rev (be_bytes32 x) else be_bytes32 x)"

definition obj_bytes16 :: "platform \<Rightarrow> u16 \<Rightarrow> u8 list" where
  "obj_bytes16 plat x = (if little_endian plat then rev (be_bytes16 x) else be_bytes16 x)"

definition obj_val32 :: "platform \<Rightarrow> u8 list \<Rightarrow> u32" where
  "obj_val32 plat bs = (if little_endian plat then be_val32 (rev (take 4 bs)) else be_val32 bs)"

definition obj_val16 :: "platform \<Rightarrow> u8 list \<Rightarrow> u16" where
  "obj_val16 plat bs = (if little_endian plat then be_val16 (rev (take 2 bs)) else be_val16 bs)"

section \<open>printf and scanf directives\<close>

definition digit_char :: "nat \<Rightarrow> char" where
  "digit_char d = ''0123456789abcdef'' ! (d mod 16)"

fun render_x :: "nat \<Rightarrow> string" where
  "render_x n = (if n < 16 then [digit_char n] else render_x (n div 16) @ [digit_char (n mod 16)])"

fun render_u :: "nat \<Rightarrow> string" where
  "render_u n = (if n < 10 then [digit_char n] else render_u (n div 10) @ [digit_char (n mod 10)])"

declare render_x.simps [simp del] render_u.simps [simp del]

text \<open>\<open>%d\<close> of an int.\<close>

definition render_d :: "int \<Rightarrow> string" where
  "render_d i = (if i < 0 then CHR ''-'' # render_u (nat (- i)) else render_u (nat i))"

text \<open>\<open>%s\<close> of a \<open>c_str()\<close>: the characters before the first NUL.\<close>

definition c_str :: "string \<Rightarrow> string" where
  "c_str s = takeWhile (\<lambda>c. c \<noteq> NUL) s"

text \<open>
  \<open>snprintf(buf, n, ...)\<close> into a zeroed buffer followed by \<open>string(buf)\<close>: at most
  \<open>n - 1\<close> characters of the formatted text are kept, then the terminator.
\<close>

definition snprintf :: "nat \<Rightarrow> string \<Rightarrow> string" where
  "snprintf n out = take (n - 1) out"

text \<open>
  \<open>sscanf(tmp, "%x", &ch)\<close> on the characters it finds up to the first NUL: white
  space is skipped, an optional sign and an optional \<open>0x\<close> prefix are accepted, then
  hexadecimal digits of either case are read. With no digit the conversion fails
  (\<open>None\<close>) and the target variable keeps its old value. The digits are converted as
  strtoul does with a 64-bit unsigned long (a value that does not fit gives the
  largest one) and the result is cut to the 32 bits of \<open>ch\<close>.
\<close>

definition isspace :: "char \<Rightarrow> bool" where
  "isspace c = (c \<in> set [CHR '' '', CHR 0x09, CHR 0x0A, CHR 0x0B, CHR 0x0C, CHR 0x0D])"

definition isxdigit :: "char \<Rightarrow> bool" where
  "isxdigit c = (c \<in> set ''0123456789abcdefABCDEF'')"

definition xdigit_val :: "char \<Rightarrow> nat" where
  "xdigit_val c =
     (let n = (of_char c :: nat)
      in if 97 \<le> n then n - 87 else if 65 \<le> n then n - 55 else n - 48)"

definition sscanf_x :: "string \<Rightarrow> u32 option" where
  "sscanf_x s =
     (let s1 = dropWhile isspace (c_str s);
          neg = (take 1 s1 = ''-'');
          s2 = (if take 1 s1 = ''-'' \<or> take 1 s1 = ''+'' then drop 1 s1 else s1);
          s3 = (if (take 2 s2 = ''0x'' \<or> take 2 s2 = ''0X'') \<and>
                   (case drop 2 s2 of [] \<Rightarrow> False | c # _ \<Rightarrow> isxdigit c)
                then drop 2 s2 else s2);
          ds = takeWhile isxdigit s3;
          n = foldl (\<lambda>acc c. 16 * acc + xdigit_val c) 0 ds;
          v = (of_nat n :: u32)
      in if ds = [] then None
         else if 2 ^ 64 \<le> n then Some (- 1)
         else Some (if neg then - v else v))"

definition scan_into :: "string \<Rightarrow> u32 \<Rightarrow> u32" where
  "scan_into tmp ch = (case sscanf_x tmp of None \<Rightarrow> ch | Some v \<Rightarrow> v)"

section \<open>Hex2Str and Str2Hex\<close>

definition char_as_uint :: "platform \<Rightarrow> u8 \<Rightarrow> u32" where
  "char_as_uint plat b = (if char_signed plat then scast b else ucast b)"

text \<open>
  \<open>Hex2Str(buf, len)\<close>: each byte is formatted with \<open>%x\<close> into the two-byte array
  \<open>ch\<close>, which has room for one character and the terminator, and appended. A
  length beyond the end of the buffer reads zero bytes there.
\<close>

definition Hex2Str :: "platform \<Rightarrow> u8 list \<Rightarrow> nat \<Rightarrow> string" where
  "Hex2Str plat buf n =
     concat (map (\<lambda>b. snprintf 2 (render_x (unat (char_as_uint plat b))))
                 (take n (buf @ replicate (n - length buf) 0)))"

text \<open>
  \<open>Str2Hex\<close> reads memory that C++ gives it no right to read, and what it returns
  depends on what is there:
  \<^item> \<open>ch\<close> is not initialised, and keeps its value when a scan fails;
  \<^item> \<open>tmp\<close> has two characters and no terminator, so \<open>sscanf\<close> reads on into
    whatever the compiler placed behind it (the bytes of \<open>ch\<close> itself, for one);
  \<^item> the second \<open>*str++\<close> of a turn steps over the terminator of a string of odd
    length, and the loop test then reads what lies behind the string.
  These are the three fields of \<open>stray\<close>: the value \<open>ch\<close> starts with, the characters
  behind \<open>tmp\<close> at the \<open>i\<close>-th scan when \<open>ch\<close> has a given value, and the characters
  behind the terminator of the string. Nothing is assumed about them.
\<close>

record stray =
  ch_start :: u32
  after_tmp :: "nat \<Rightarrow> u32 \<Rightarrow> string"
  after_str :: "nat \<Rightarrow> char"

text \<open>The memory \<open>c_str()\<close> points to: the characters, the terminator, and what follows.\<close>

definition c_str_mem :: "string \<Rightarrow> (nat \<Rightarrow> char) \<Rightarrow> nat \<Rightarrow> char" where
  "c_str_mem s behind k =
     (if k < length s then s ! k
      else if k = length s then NUL
      else behind (k - Suc (length s)))"

text \<open>
  \<open>Str2Hex(str, buf, szLen)\<close>: \<open>buf\<close> is zeroed, then while \<open>*str\<close> is not NUL and
  \<open>szLen--\<close> is not zero, two characters go to \<open>tmp\<close>, are scanned with \<open>%x\<close> into
  \<open>ch\<close>, and the low byte of \<open>ch\<close> is stored. \<open>p\<close> is the offset of the read pointer,
  \<open>i\<close> that of the write pointer.
\<close>

fun Str2Hex_loop ::
  "(nat \<Rightarrow> char) \<Rightarrow> (nat \<Rightarrow> u32 \<Rightarrow> string) \<Rightarrow> nat \<Rightarrow> u8 list \<Rightarrow> nat \<Rightarrow> nat \<Rightarrow> u32 \<Rightarrow> u8 list" where
  "Str2Hex_loop str behind_tmp p buf i szLen ch =
     (if str p = NUL \<or> szLen = 0 then buf
      else let tmp = [str p, str (p + 1)];
               ch' = scan_into (tmp @ behind_tmp i ch) ch
           in Str2Hex_loop str behind_tmp (p + 2) (buf[i := ucast ch']) (i + 1) (szLen - 1) ch')"

declare Str2Hex_loop.simps [simp del]

definition Str2Hex :: "(nat \<Rightarrow> char) \<Rightarrow> nat \<Rightarrow> stray \<Rightarrow> u8 list" where
  "Str2Hex str szLen m =
     Str2Hex_loop str (after_tmp m) 0 (replicate szLen 0) 0 szLen (ch_start m)"

section \<open>ConstructAps and PushMessage\<close>

type_synonym i32 = "32 word"

definition ConstructAps :: "string \<Rightarrow> i32 \<Rightarrow> string \<Rightarrow> string" where
  "ConstructAps body badge sound =
     snprintf 256
       (''{\"aps\": {\"alert\": \"'' @ c_str body @ ''\",\"badge\": '' @ render_d (sint badge) @
        '',\"sound\": \"'' @ c_str sound @ ''\"}}'')"

text \<open>
  The frame \<open>PushMessage\<close> assembles in \<open>buf\<close> (lines 146 to 180), \<open>ptr - buf\<close> bytes
  long. \<open>now\<close> is what \<open>time(NULL)\<close> returns, \<open>m\<close> what the stray reads of \<open>Str2Hex\<close>
  find. The frame has at most 300 bytes, inside \<open>buf[1024]\<close>.
\<close>

definition EncodeNotification ::
  "platform \<Rightarrow> int \<Rightarrow> stray \<Rightarrow> string \<Rightarrow> string \<Rightarrow> i32 \<Rightarrow> string \<Rightarrow> u8 list" where
  "EncodeNotification plat now m deviceToken body badge sound =
     (let tok = Str2Hex (c_str_mem deviceToken (after_str m)) 32 m;
          command = (1 :: u8);
          ident = (word_of_int now :: u32);
          expiry = htonl plat (ident + 86400);
          tokenlen = htons plat 32;
          aps = ConstructAps body badge sound;
          payloadlen = htons plat (of_nat (length aps))
      in [command] @ obj_bytes32 plat ident @ obj_bytes32 plat expiry @
         obj_bytes16 plat tokenlen @ tok @ obj_bytes16 plat payloadlen @ map of_char aps)"

text \<open>
  The exceptions of apns.cpp carry a formatted message; the \<open>ASSERT_SSL\<close> one is
  identified by the OpenSSL error code. \<open>ERR_get_error\<close> takes the earliest code from
  the error queue and returns 0 when the queue is empty.
\<close>

datatype error = SslError nat

definition ERR_get_error :: "nat list \<Rightarrow> nat" where
  "ERR_get_error errq = (case errq of [] \<Rightarrow> 0 | code # _ \<Rightarrow> code)"

definition ASSERT_SSL :: "bool \<Rightarrow> nat list \<Rightarrow> error + unit" where
  "ASSERT_SSL cond errq =
     (if cond then
        (let code = ERR_get_error errq in if code \<noteq> 0 then Inl (SslError code) else Inr ())
      else Inr ())"

text \<open>What an OpenSSL call answers: its return value and the error queue it leaves.\<close>

record ssl_reply =
  ret :: int
  errors :: "nat list"

definition PushMessage ::
  "platform \<Rightarrow> int \<Rightarrow> stray \<Rightarrow> (u8 list \<Rightarrow> ssl_reply) \<Rightarrow> string \<Rightarrow> string \<Rightarrow> i32 \<Rightarrow> string
     \<Rightarrow> error + int" where
  "PushMessage plat now m SSL_write deviceToken body badge sound =
     (let r = SSL_write (EncodeNotification plat now m deviceToken body badge sound)
      in case ASSERT_SSL (ret r \<le> 0) (errors r) of
           Inl e \<Rightarrow> Inl e
         | Inr _ \<Rightarrow> Inr (ret r))"

section \<open>FeedBack\<close>

text \<open>
  \<open>ApnsFeedback\<close> is declared in apns.h; its fields are the three that \<open>FeedBack\<close>
  assigns, with the types of the values assigned.
\<close>

record ApnsFeedback =
  tm :: u32
  len :: u16
  token :: string

text \<open>The decoding of one 38-byte buffer (lines 201 to 216).\<close>

definition DecodeFeedbackRecord :: "platform \<Rightarrow> u8 list \<Rightarrow> ApnsFeedback" where
  "DecodeFeedbackRecord plat buf =
     (let t = ntohl plat (obj_val32 plat (take 4 buf));
          l0 = obj_val16 plat (take 2 (drop 4 buf));
          l = (ucast (ntohl plat (ucast l0)) :: u16)
      in \<lparr>tm = t, len = l, token = Hex2Str plat (drop 6 buf) (unat l)\<rparr>)"

text \<open>
  One turn of the loop sees what \<open>SSL_pending\<close> returns and, when it goes on to read,
  what \<open>SSL_read\<close> returns, the bytes it stored in the zeroed \<open>buf\<close> and the error
  queue it left. The session is the list of these answers, one for each turn; a list
  that ends before the loop does gives \<open>None\<close>. The result is the exception, if any,
  and the vector \<open>feedbacks\<close>, which the caller keeps in either case.
\<close>

record ssl_turn =
  pending :: nat
  rd_ret :: int
  rd_data :: "u8 list"
  rd_errors :: "nat list"

fun FeedBack ::
  "platform \<Rightarrow> ssl_turn list \<Rightarrow> ApnsFeedback list \<Rightarrow> ((error + unit) \<times> ApnsFeedback list) option" where
  "FeedBack plat [] feedbacks = None"
| "FeedBack plat (t # ts) feedbacks =
     (if 38 \<ge> pending t then Some (Inr (), feedbacks)
      else let buf = take 38 (rd_data t @ replicate 38 0)
           in case ASSERT_SSL (rd_ret t \<le> 0) (rd_errors t) of
                Inl e \<Rightarrow> Some (Inl e, feedbacks)
              | Inr _ \<Rightarrow> FeedBack plat ts (feedbacks @ [DecodeFeedbackRecord plat buf]))"

section \<open>Reference values\<close>

text \<open>
  The payload as the specification words it: the three values substituted into the
  fixed template, with nothing cut.
\<close>

definition aps_template :: "string \<Rightarrow> int \<Rightarrow> string \<Rightarrow> string" where
  "aps_template body badge sound =
     ''{\"aps\": {\"alert\": \"'' @ body @ ''\",\"badge\": '' @ render_d badge @
     '',\"sound\": \"'' @ sound @ ''\"}}''"

text \<open>The device token 01 02 ... 20 in hexadecimal, and its 32 bytes.\<close>

definition sample_token :: string where
  "sample_token = ''0102030405060708090a0b0c0d0e0f101112131415161718191a1b1c1d1e1f20''"

definition sample_token_bytes :: "u8 list" where
  "sample_token_bytes =
     [0x01, 0x02, 0x03, 0x04, 0x05, 0x06, 0x07, 0x08, 0x09, 0x0a, 0x0b, 0x0c, 0x0d, 0x0e, 0x0f, 0x10,
      0x11, 0x12, 0x13, 0x14, 0x15, 0x16, 0x17, 0x18, 0x19, 0x1a, 0x1b, 0x1c, 0x1d, 0x1e, 0x1f, 0x20]"

text \<open>
  Three states of the memory that \<open>Str2Hex\<close> strays into. In \<open>quiet\<close> every stray
  read finds a NUL. In \<open>ch_behind_tmp\<close> the compiler has placed \<open>ch\<close> right behind
  \<open>tmp\<close> on a little-endian host, so that a scan reads on into the bytes of the
  previous value. In \<open>stale_9\<close> the character \<open>9\<close> lies behind the terminator of the
  token string, as it does after a longer string was cut to three characters.
\<close>

definition quiet :: stray where
  "quiet = \<lparr>ch_start = 0, after_tmp = (\<lambda>i ch. []), after_str = (\<lambda>k. NUL)\<rparr>"

definition ch_behind_tmp :: stray where
  "ch_behind_tmp =
     \<lparr>ch_start = 0,
      after_tmp = (\<lambda>i ch. map (\<lambda>b. char_of (unat b)) (rev (be_bytes32 ch))),
      after_str = (\<lambda>k. NUL)\<rparr>"


text \<open>The feedback frame 00 00 00 0A, 00 02, AB CD, in the 38-byte buffer.\<close>

definition sample_feedback :: "u8 list" where
  "sample_feedback = [0x00, 0x00, 0x00, 0x0A, 0x00, 0x02, 0xAB, 0xCD] @ replicate 30 0"

text \<open>An \<open>SSL_write\<close> that sends the whole buffer, and ones that fail with an empty error queue.\<close>

definition write_all :: "u8 list \<Rightarrow> ssl_reply" where
  "write_all buf = \<lparr>ret = int (length buf), errors = []\<rparr>"

definition write_fails_quietly :: "int \<Rightarrow> u8 list \<Rightarrow> ssl_reply" where
  "write_fails_quietly r buf = \<lparr>ret = r, errors = []\<rparr>"

section \<open>Byte order\<close>

text \<open>
  A value passed through htonl or htons and then copied with memcpy leaves its
  big-endian bytes in the buffer, whatever the host.
\<close>

lemma bswap_32_bytes: "be_bytes32 (bswap_32 x) = rev (be_bytes32 x)"
  unfolding be_bytes32_def bswap_32_def
  apply simp
  apply (intro conjI; rule bit_word_eqI)
     apply (auto simp add: bit_simps)
  done

lemma bswap_16_bytes: "be_bytes16 (bswap_16 x) = rev (be_bytes16 x)"
  unfolding be_bytes16_def bswap_16_def
  apply simp
  apply (intro conjI; rule bit_word_eqI)
   apply (auto simp add: bit_simps)
  done

lemma obj_bytes32_htonl: "obj_bytes32 plat (htonl plat x) = be_bytes32 x"
  by (simp add: obj_bytes32_def htonl_def bswap_32_bytes)

lemma obj_bytes16_htons: "obj_bytes16 plat (htons plat x) = be_bytes16 x"
  by (simp add: obj_bytes16_def htons_def bswap_16_bytes)

lemma length_be_bytes32: "length (be_bytes32 x) = 4"
  by (simp add: be_bytes32_def)

lemma length_be_bytes16: "length (be_bytes16 x) = 2"
  by (simp add: be_bytes16_def)

lemma length_obj_bytes32: "length (obj_bytes32 plat x) = 4"
  by (simp add: obj_bytes32_def length_be_bytes32)

lemma be_val32_bytes: "be_val32 (be_bytes32 x) = x"
  unfolding be_bytes32_def be_val32_def
  apply simp
  apply (rule bit_word_eqI)
  subgoal for n
    apply (cases "n < 8"; cases "n < 16"; cases "n < 24")
    apply (auto simp add: bit_simps)
    done
  done

lemma be_val16_bytes: "be_val16 (be_bytes16 x) = x"
  unfolding be_bytes16_def be_val16_def
  apply simp
  apply (rule bit_word_eqI)
  subgoal for n
    apply (cases "n < 8")
    apply (auto simp add: bit_simps)
    done
  done

lemma obj_val32_bytes: "obj_val32 plat (obj_bytes32 plat x) = x"
  by (simp add: obj_val32_def obj_bytes32_def length_be_bytes32 be_val32_bytes)

text \<open>ntohl applied to a 16-bit value and cut back to 16 bits: nothing is left on a
  little-endian host, the value itself on a big-endian one.\<close>

lemma ntohl_of_u16:
  "(ucast (ntohl plat (ucast (l :: u16))) :: u16) = (if little_endian plat then 0 else l)"
proof (cases "little_endian plat")
  case True
  have "(ucast (bswap_32 (ucast l)) :: u16) = 0"
    unfolding bswap_32_def
    by (rule bit_word_eqI) (auto simp add: bit_simps dest: bit_imp_le_length)
  with True show ?thesis by (simp add: ntohl_def)
next
  case False
  have "(ucast (ucast l :: u32) :: u16) = l"
    by (rule bit_word_eqI) (auto simp add: bit_simps dest: bit_imp_le_length)
  with False show ?thesis by (simp add: ntohl_def)
qed

section \<open>The conversions\<close>

lemmas scan_defs =
  scan_into_def sscanf_x_def c_str_def NUL_def isspace_def isxdigit_def xdigit_val_def

lemmas render_defs = render_d_def render_x.simps render_u.simps digit_char_def

lemma replicate_numeral: "replicate (numeral k) x = x # replicate (pred_numeral k) x"
  by (simp add: numeral_eq_Suc)

lemmas loop_eval =
  Str2Hex_def Str2Hex_loop.simps c_str_mem_def scan_defs replicate_numeral Let_def

lemma length_Str2Hex_loop: "length (Str2Hex_loop str bt p buf i n ch) = length buf"
proof (induction str bt p buf i n ch rule: Str2Hex_loop.induct)
  case (1 str bt p buf i szLen ch)
  show ?case
    by (subst Str2Hex_loop.simps) (use 1 in \<open>simp add: Let_def\<close>)
qed

lemma length_Str2Hex: "length (Str2Hex str n m) = n"
  by (simp add: Str2Hex_def length_Str2Hex_loop)

text \<open>
  When a NUL lies \<open>2 * k\<close> characters ahead of the read pointer, the loop stops after
  at most \<open>k\<close> turns and leaves the buffer from offset \<open>i + k\<close> on as it was.
\<close>

lemma Str2Hex_loop_untouched:
  "str (p + 2 * k) = NUL \<Longrightarrow> i + k \<le> j \<Longrightarrow>
   Str2Hex_loop str bt p buf i n ch ! j = buf ! j"
proof (induction str bt p buf i n ch arbitrary: k rule: Str2Hex_loop.induct)
  case (1 str bt p buf i szLen ch)
  show ?case
  proof (cases "str p = NUL \<or> szLen = 0")
    case True
    then show ?thesis by (subst Str2Hex_loop.simps) simp
  next
    case False
    with "1.prems" have k: "k \<noteq> 0" by (cases k) auto
    define v where "v = scan_into ([str p, str (p + 1)] @ bt i ch) ch"
    from k "1.prems" have a: "str (p + 2 + 2 * (k - 1)) = NUL" and b: "i + 1 + (k - 1) \<le> j"
      by (cases k; simp)+
    from "1.IH" [OF False refl refl a b]
    have "Str2Hex_loop str bt (p + 2) (buf[i := ucast v]) (i + 1) (szLen - 1) v ! j =
        buf[i := ucast v] ! j"
      by (simp add: v_def)
    moreover from k "1.prems" have "i \<noteq> j" by simp
    ultimately show ?thesis
      using False by (subst Str2Hex_loop.simps) (simp add: Let_def v_def)
  qed
qed



text \<open>A string of even length has its terminator where a turn of the loop begins.\<close>

lemma Str2Hex_even_tail_zero:
  assumes "even (length s)"
  shows "drop (length s div 2) (Str2Hex (c_str_mem s behind) n m) =
         replicate (n - length s div 2) 0"
proof (rule nth_equalityI)
  show "length (drop (length s div 2) (Str2Hex (c_str_mem s behind) n m)) =
        length (replicate (n - length s div 2) (0::u8))"
    by (simp add: length_Str2Hex)
next
  fix i assume "i < length (drop (length s div 2) (Str2Hex (c_str_mem s behind) n m))"
  then have i: "length s div 2 + i < n" by (simp add: length_Str2Hex)
  from assms have "c_str_mem s behind (0 + 2 * (length s div 2)) = NUL"
    by (simp add: c_str_mem_def)
  then have "Str2Hex_loop (c_str_mem s behind) (after_tmp m) 0 (replicate n 0) 0 n (ch_start m) !
        (length s div 2 + i) = replicate n 0 ! (length s div 2 + i)"
    by (rule Str2Hex_loop_untouched) simp
  with i show "drop (length s div 2) (Str2Hex (c_str_mem s behind) n m) ! i =
               replicate (n - length s div 2) 0 ! i"
    by (simp add: Str2Hex_def length_Str2Hex_loop)
qed

text \<open>
  The three memories at work. Where nothing follows \<open>tmp\<close> the sample token decodes
  to its bytes; where \<open>ch\<close> follows \<open>tmp\<close>, the third scan of \<open>123456789abc\<close> reads
  \<open>56\<close> and then the \<open>4\<close> that the value \<open>0x34\<close> left in \<open>ch\<close>; and the string \<open>010\<close>
  with a \<open>9\<close> behind its terminator gives a third byte.
\<close>

lemma Str2Hex_sample: "Str2Hex (c_str_mem sample_token (after_str quiet)) 32 quiet = sample_token_bytes"
  by (simp add: loop_eval quiet_def sample_token_def sample_token_bytes_def cong: let_weak_cong)

lemma Str2Hex_ch_behind_tmp:
  "Str2Hex (c_str_mem ''123456789abc'' (after_str ch_behind_tmp)) 8 ch_behind_tmp =
     [0x12, 0x34, 0x64, 0x8d, 0x9a, 0xbc, 0, 0]"
  by (simp add: loop_eval ch_behind_tmp_def be_bytes32_def char_of_def bit_Suc_0_iff
      cong: let_weak_cong)



text \<open>Every byte contributes exactly one character to the result of \<open>Hex2Str\<close>.\<close>

lemma render_x_nonempty: "render_x k \<noteq> []"
  by (subst render_x.simps) simp

lemma length_one_char: "length (snprintf 2 (render_x k)) = 1"
  using render_x_nonempty [of k] by (cases "render_x k") (simp_all add: snprintf_def)

lemma length_concat_one_char:
  "length (concat (map (\<lambda>b. snprintf 2 (render_x (f b))) bs)) = length bs"
  by (induction bs) (simp_all add: length_one_char)

lemma length_Hex2Str: "length (Hex2Str plat buf n) = n"
  unfolding Hex2Str_def by (simp only: length_concat_one_char) simp

lemma Hex2Str_sample:
  "Hex2Str x86_linux sample_token_bytes 32 = ''123456789abcdef11111111111111112''"
  by (simp add: Hex2Str_def sample_token_bytes_def x86_linux_def char_as_uint_def snprintf_def
      render_defs)

section \<open>The notification frame\<close>

lemma split_frame:
  assumes "length A = 4" "length B = 4" "length C = 2" "length T = 32" "length D = 2"
  shows "([c] @ A @ B @ C @ T @ D @ P) ! 0 = c"
    and "take 4 (drop 1 ([c] @ A @ B @ C @ T @ D @ P)) = A"
    and "take 4 (drop 5 ([c] @ A @ B @ C @ T @ D @ P)) = B"
    and "take 2 (drop 9 ([c] @ A @ B @ C @ T @ D @ P)) = C"
    and "take 32 (drop 11 ([c] @ A @ B @ C @ T @ D @ P)) = T"
    and "take 2 (drop 43 ([c] @ A @ B @ C @ T @ D @ P)) = D"
    and "drop 45 ([c] @ A @ B @ C @ T @ D @ P) = P"
  using assms by simp_all

lemma EncodeNotification_layout:
  "EncodeNotification plat now m s body badge sound =
     [1] @ obj_bytes32 plat (word_of_int now) @ be_bytes32 (word_of_int now + 86400) @
     be_bytes16 32 @ Str2Hex (c_str_mem s (after_str m)) 32 m @
     be_bytes16 (of_nat (length (ConstructAps body badge sound))) @
     map of_char (ConstructAps body badge sound)"
  by (simp add: EncodeNotification_def Let_def obj_bytes32_htonl obj_bytes16_htons)

lemmas frame_parts =
  split_frame [OF length_obj_bytes32 length_be_bytes32 length_be_bytes16 length_Str2Hex
    length_be_bytes16]

lemma length_EncodeNotification:
  "length (EncodeNotification plat now m s body badge sound) =
     45 + length (ConstructAps body badge sound)"
  by (simp add: EncodeNotification_layout length_obj_bytes32 length_be_bytes32
      length_be_bytes16 length_Str2Hex)

lemma ConstructAps_sample:
  "ConstructAps ''hello'' 5 ''default'' =
     ''{\"aps\": {\"alert\": \"hello\",\"badge\": 5,\"sound\": \"default\"}}''"
  by (simp add: ConstructAps_def snprintf_def c_str_def NUL_def render_defs)

lemma ConstructAps_template:
  "ConstructAps body badge sound =
     take 255 (aps_template (c_str body) (sint badge) (c_str sound))"
  by (simp add: ConstructAps_def snprintf_def aps_template_def)

lemma PushMessage_write_ok:
  "0 < ret (SSL_write (EncodeNotification plat now m s body badge sound)) \<Longrightarrow>
   PushMessage plat now m SSL_write s body badge sound =
     Inr (ret (SSL_write (EncodeNotification plat now m s body badge sound)))"
  by (simp add: PushMessage_def ASSERT_SSL_def Let_def)

lemma PushMessage_write_all:
  "PushMessage plat now m write_all s ''hello'' 5 ''default'' = Inr 102"
  by (simp add: PushMessage_def ASSERT_SSL_def Let_def write_all_def length_EncodeNotification
      ConstructAps_sample)

section \<open>The feedback buffer\<close>

lemma length_sample_feedback: "length sample_feedback = 38"
  by (simp add: sample_feedback_def)

lemma DecodeFeedbackRecord_fields:
  "tm (DecodeFeedbackRecord plat sample_feedback) = 10 \<and>
   len (DecodeFeedbackRecord plat sample_feedback) = (if little_endian plat then 0 else 2)"
  by (simp add: DecodeFeedbackRecord_def Let_def ntohl_of_u16)
     (simp add: sample_feedback_def ntohl_def obj_val32_def obj_val16_def be_val32_def
       be_val16_def bswap_32_def)

lemma DecodeFeedbackRecord_sample:
  "DecodeFeedbackRecord x86_linux sample_feedback = \<lparr>tm = 10, len = 0, token = []\<rparr>"
  by (simp add: DecodeFeedbackRecord_def sample_feedback_def x86_linux_def
      ntohl_def obj_val32_def obj_val16_def be_val32_def be_val16_def bswap_32_def
      Hex2Str_def)

section \<open>The claims\<close>

subsection \<open>C1: the frame for the sample notification\<close>

text \<open>
  C1, as the code has it. For the device token \<open>0102...20\<close>, body \<open>hello\<close>, badge 5 and
  sound \<open>default\<close>, at any time and on any host, the first byte of the frame is 1, the
  bytes at offsets 9 and 10 (after the command byte, the 4-byte identifier and the
  4-byte expiry) are \<open>00 20\<close>, and the two bytes before the payload, read big-endian,
  give the number of payload bytes, which are the 57 characters of the generated text.
\<close>

theorem C1_notification_frame_fields:
  "EncodeNotification plat now m sample_token ''hello'' 5 ''default'' ! 0 = 1 \<and>
   take 2 (drop 9 (EncodeNotification plat now m sample_token ''hello'' 5 ''default'')) =
     [0x00, 0x20] \<and>
   unat (be_val16 (take 2 (drop 43
       (EncodeNotification plat now m sample_token ''hello'' 5 ''default'')))) =
     length (ConstructAps ''hello'' 5 ''default'') \<and>
   drop 45 (EncodeNotification plat now m sample_token ''hello'' 5 ''default'') =
     map of_char (ConstructAps ''hello'' 5 ''default'') \<and>
   length (ConstructAps ''hello'' 5 ''default'') = 57"
proof -
  let ?F = "EncodeNotification plat now m sample_token ''hello'' 5 ''default''"
  have n: "length (ConstructAps ''hello'' 5 ''default'') = 57"
    by (simp add: ConstructAps_sample)
  have "?F ! 0 = 1"
    by (simp only: EncodeNotification_layout frame_parts)
  moreover have "take 2 (drop 9 ?F) = [0x00, 0x20]"
    by (simp only: EncodeNotification_layout frame_parts) (simp add: be_bytes16_def)
  moreover have "unat (be_val16 (take 2 (drop 43 ?F))) =
      length (ConstructAps ''hello'' 5 ''default'')"
    by (simp only: EncodeNotification_layout frame_parts be_val16_bytes n) simp
  moreover have "drop 45 ?F = map of_char (ConstructAps ''hello'' 5 ''default'')"
    by (simp only: EncodeNotification_layout frame_parts)
  ultimately show ?thesis using n by blast
qed

text \<open>
  C1 as worded puts the token length at bytes 5 and 6. Sent at time 1700000000 from a
  little-endian host, the frame has the first two bytes of the expiry there, \<open>65 55\<close>,
  and counting from one instead (offsets 4 and 5) does not give \<open>00 20\<close> either.
\<close>

theorem C1_offset_5_is_expiry:
  "take 2 (drop 5 (EncodeNotification x86_linux 1700000000 quiet sample_token ''hello'' 5 ''default''))
     \<noteq> [0x00, 0x20] \<and>
   take 2 (drop 4 (EncodeNotification x86_linux 1700000000 quiet sample_token ''hello'' 5 ''default''))
     \<noteq> [0x00, 0x20]"
proof -
  let ?F = "EncodeNotification x86_linux 1700000000 quiet sample_token ''hello'' 5 ''default''"
  have "take 4 (drop 5 ?F) = [0x65, 0x55, 0x42, 0x80]"
    by (simp only: EncodeNotification_layout frame_parts) (simp add: be_bytes32_def)
  then have "take 2 (take 4 (drop 5 ?F)) = [0x65, 0x55]" by simp
  then have a: "take 2 (drop 5 ?F) = [0x65, 0x55]" by simp
  have "take 4 (drop 1 ?F) = [0x00, 0xF1, 0x53, 0x65]"
    by (simp only: EncodeNotification_layout frame_parts)
       (simp add: obj_bytes32_def be_bytes32_def x86_linux_def)
  then have "drop 3 (take 4 (drop 1 ?F)) = [0x65]" by simp
  then have "take 1 (drop 4 ?F) = [0x65]" by (simp add: drop_take)
  then have "take 1 (take 2 (drop 4 ?F)) = [0x65]" by simp
  then have b: "take 2 (drop 4 ?F) \<noteq> [0x00, 0x20]" by (auto simp del: take_take)
  from a b show ?thesis by simp
qed

subsection \<open>C2: decoding the sample feedback frame\<close>

text \<open>
  C2. For the frame \<open>00 00 00 0A, 00 02, AB CD\<close> the timestamp is 10 on every host, but
  the token is never rendered as \<open>abcd\<close>. On a little-endian host the length comes out
  as 0, because ntohl is applied to the 16-bit length and the result cut to 16 bits,
  and the token is empty. On a big-endian host the length is 2 and each byte gives a
  single character: \<open>ff\<close> where char is signed. On no host has the token four
  characters.
\<close>

theorem C2_sample_feedback_decoded:
  "DecodeFeedbackRecord x86_linux sample_feedback = \<lparr>tm = 10, len = 0, token = []\<rparr> \<and>
   DecodeFeedbackRecord big_endian_host sample_feedback = \<lparr>tm = 10, len = 2, token = ''ff''\<rparr> \<and>
   tm (DecodeFeedbackRecord plat sample_feedback) = 10 \<and>
   length (token (DecodeFeedbackRecord plat sample_feedback)) \<le> 2 \<and>
   token (DecodeFeedbackRecord plat sample_feedback) \<noteq> ''abcd''"
proof -
  have a: "DecodeFeedbackRecord big_endian_host sample_feedback =
      \<lparr>tm = 10, len = 2, token = ''ff''\<rparr>"
    by (simp add: DecodeFeedbackRecord_def sample_feedback_def big_endian_host_def
        ntohl_def obj_val32_def obj_val16_def be_val32_def be_val16_def
        Hex2Str_def char_as_uint_def snprintf_def render_defs)
  have "token (DecodeFeedbackRecord plat sample_feedback) =
      Hex2Str plat (drop 6 sample_feedback) (unat (len (DecodeFeedbackRecord plat sample_feedback)))"
    by (simp add: DecodeFeedbackRecord_def Let_def)
  then have "length (token (DecodeFeedbackRecord plat sample_feedback)) =
      unat (len (DecodeFeedbackRecord plat sample_feedback))"
    by (simp only: length_Hex2Str)
  then have b: "length (token (DecodeFeedbackRecord plat sample_feedback)) \<le> 2"
    by (simp add: DecodeFeedbackRecord_fields)
  then have c: "token (DecodeFeedbackRecord plat sample_feedback) \<noteq> ''abcd''"
    by auto
  from a b c show ?thesis
    by (simp add: DecodeFeedbackRecord_sample DecodeFeedbackRecord_fields)
qed

subsection \<open>C3: Hex2Str and Str2Hex are not inverse\<close>

text \<open>
  C3. \<open>Hex2Str\<close> gives one character for each byte, so neither round trip returns its
  input. The 32 token bytes \<open>01 02 ... 20\<close> are rendered as 32 characters, and whatever
  the scans of \<open>Str2Hex\<close> return for them, its loop stops at their terminator after 16
  turns: the last 16 bytes of what it gives back are zero, where the token has
  \<open>11 ... 20\<close>. The 64 characters \<open>0102...20\<close> decode to 32 bytes, which are rendered
  as 32 characters, not 64.
\<close>

theorem C3_hex_round_trip_fails:
  "length (Hex2Str plat buf n) = n \<and>
   Hex2Str x86_linux sample_token_bytes 32 = ''123456789abcdef11111111111111112'' \<and>
   drop 16 (Str2Hex (c_str_mem (Hex2Str x86_linux sample_token_bytes 32) (after_str m)) 32 m) =
     replicate 16 0 \<and>
   Str2Hex (c_str_mem (Hex2Str x86_linux sample_token_bytes 32) (after_str m)) 32 m \<noteq>
     sample_token_bytes \<and>
   Hex2Str plat (Str2Hex (c_str_mem sample_token (after_str m)) 32 m) 32 \<noteq> sample_token"
proof -
  let ?decoded = "Str2Hex (c_str_mem (Hex2Str x86_linux sample_token_bytes 32) (after_str m)) 32 m"
  have "even (length (Hex2Str x86_linux sample_token_bytes 32))"
    by (simp add: length_Hex2Str)
  from Str2Hex_even_tail_zero [OF this, of "after_str m" 32 m]
  have a: "drop 16 ?decoded = replicate 16 0"
    by (simp add: length_Hex2Str)
  have "drop 16 sample_token_bytes \<noteq> replicate 16 0"
    by (simp add: sample_token_bytes_def replicate_numeral)
  with a have b: "?decoded \<noteq> sample_token_bytes" by auto
  have "length (Hex2Str plat (Str2Hex (c_str_mem sample_token (after_str m)) 32 m) 32) = 32"
    by (rule length_Hex2Str)
  moreover have "length sample_token = 64"
    by (simp add: sample_token_def)
  ultimately have c: "Hex2Str plat (Str2Hex (c_str_mem sample_token (after_str m)) 32 m) 32 \<noteq>
      sample_token"
    by auto
  from a b c length_Hex2Str [of plat buf n] Hex2Str_sample show ?thesis by blast
qed

subsection \<open>C4: the device token is not validated\<close>

text \<open>
  C4, as the code has it. \<open>PushMessage\<close> has no check of the device token and no
  error for it: whatever the string (odd length, characters that are not hexadecimal
  digits, any decoded length), the frame is built, 45 bytes and the payload, and when
  \<open>SSL_write\<close> returns a positive count \<open>PushMessage\<close> returns that count.
\<close>

theorem C4_token_not_validated:
  assumes "0 < ret (SSL_write (EncodeNotification plat now m deviceToken body badge sound))"
  shows "PushMessage plat now m SSL_write deviceToken body badge sound =
           Inr (ret (SSL_write (EncodeNotification plat now m deviceToken body badge sound))) \<and>
         length (EncodeNotification plat now m deviceToken body badge sound) =
           45 + length (ConstructAps body badge sound)"
  using assms by (simp add: PushMessage_write_ok length_EncodeNotification)

text \<open>The token \<open>xyz\<close>, of odd length and without a hexadecimal digit, is sent in a
  frame of 102 bytes.\<close>

theorem C4_token_not_validated_witness:
  "0 < ret (write_all (EncodeNotification x86_linux 1700000000 quiet ''xyz'' ''hello'' 5 ''default'')) \<and>
   PushMessage x86_linux 1700000000 quiet write_all ''xyz'' ''hello'' 5 ''default'' = Inr 102"
proof -
  have h: "0 < ret (write_all
      (EncodeNotification x86_linux 1700000000 quiet ''xyz'' ''hello'' 5 ''default''))"
    by (simp add: write_all_def length_EncodeNotification)
  from C4_token_not_validated [where SSL_write = write_all, OF h] h show ?thesis
    by (simp add: write_all_def ConstructAps_sample)
qed

text \<open>
  C4 as worded asks for a failure. The empty token decodes to no byte at all and the
  token \<open>0102\<close> to two, neither to 32, and both are sent: \<open>PushMessage\<close> returns the
  102 bytes written.
\<close>

theorem C4_short_token_accepted:
  "PushMessage x86_linux 1700000000 quiet write_all [] ''hello'' 5 ''default'' = Inr 102 \<and>
   PushMessage x86_linux 1700000000 quiet write_all ''0102'' ''hello'' 5 ''default'' = Inr 102"
  by (simp only: PushMessage_write_all)

subsection \<open>C5: one full frame pending\<close>

text \<open>
  C5. The loop leaves when \<open>sizeof(buf) >= num\<close>, that is with 38 bytes pending as
  well as with fewer. With exactly one full 38-byte frame pending nothing is read and
  the vector stays empty; the same frame is read and decoded once 39 bytes are
  pending.
\<close>

theorem C5_exactly_one_frame_pending:
  "FeedBack x86_linux
     [\<lparr>pending = 38, rd_ret = 38, rd_data = sample_feedback, rd_errors = []\<rparr>] [] =
     Some (Inr (), []) \<and>
   FeedBack x86_linux
     [\<lparr>pending = 39, rd_ret = 38, rd_data = sample_feedback, rd_errors = []\<rparr>,
      \<lparr>pending = 1, rd_ret = 0, rd_data = [], rd_errors = []\<rparr>] [] =
     Some (Inr (), [\<lparr>tm = 10, len = 0, token = []\<rparr>])"
  by (simp add: ASSERT_SSL_def length_sample_feedback DecodeFeedbackRecord_sample)

subsection \<open>C6: the identifier is copied in host order\<close>

text \<open>
  C6. The identifier is copied into the frame without htonl, unlike the expiry and the
  two lengths. On a little-endian host the identifier 1700000000 (\<open>0x6553F100\<close>) is
  on the wire as \<open>00 F1 53 65\<close>; its big-endian bytes are \<open>65 53 F1 00\<close>.
\<close>

theorem C6_identifier_in_host_order:
  "take 4 (drop 1 (EncodeNotification x86_linux 1700000000 quiet sample_token ''hello'' 5 ''default'')) =
     [0x00, 0xF1, 0x53, 0x65] \<and>
   be_bytes32 (word_of_int 1700000000) = [0x65, 0x53, 0xF1, 0x00]"
  by (simp only: EncodeNotification_layout frame_parts)
     (simp add: obj_bytes32_def be_bytes32_def x86_linux_def)

subsection \<open>C7: a failed write with an empty error queue\<close>

text \<open>
  C7. \<open>ASSERT_SSL\<close> throws only for a code taken from the OpenSSL error queue. When
  \<open>SSL_write\<close> returns 0 or -1 and the queue is empty, \<open>PushMessage\<close> raises nothing
  and returns that value.
\<close>

theorem C7_quiet_write_failure_returns:
  "PushMessage x86_linux 1700000000 quiet (write_fails_quietly 0) sample_token ''hello'' 5 ''default'' =
     Inr 0 \<and>
   PushMessage x86_linux 1700000000 quiet (write_fails_quietly (- 1)) sample_token ''hello'' 5 ''default'' =
     Inr (- 1)"
  by (simp add: PushMessage_def ASSERT_SSL_def ERR_get_error_def Let_def write_fails_quietly_def)

subsection \<open>C8: the payload is the template, cut to 255 bytes\<close>

text \<open>
  C8, as the code has it. The payload is the text of the template with the body and
  the sound (each up to its first NUL) and the decimal badge substituted, cut to its
  first 255 bytes by the bound given to snprintf; so it is exactly the substitution
  whenever that has at most 255 bytes.
\<close>

theorem C8_payload_is_cut_template:
  "ConstructAps body badge sound =
     take 255 (aps_template (c_str body) (sint badge) (c_str sound)) \<and>
   length (ConstructAps body badge sound) \<le> 255"
  by (simp add: ConstructAps_template)

text \<open>
  C8 as worded excludes truncation. With a body of 300 letters the substitution has
  352 bytes and the payload 255.
\<close>

theorem C8_long_body_is_cut:
  "ConstructAps (replicate 300 CHR ''a'') 5 ''default'' \<noteq>
     aps_template (replicate 300 CHR ''a'') 5 ''default'' \<and>
   length (ConstructAps (replicate 300 CHR ''a'') 5 ''default'') = 255 \<and>
   length (aps_template (replicate 300 CHR ''a'') 5 ''default'') = 352"
proof -
  have a: "length (aps_template (replicate 300 CHR ''a'') 5 ''default'') = 352"
    by (simp add: aps_template_def render_defs)
  have "c_str (replicate 300 CHR ''a'') = replicate 300 CHR ''a''"
    by (simp add: c_str_def NUL_def takeWhile_eq_all_conv)
  moreover have "c_str ''default'' = ''default''"
    by (simp add: c_str_def NUL_def)
  ultimately have "ConstructAps (replicate 300 CHR ''a'') 5 ''default'' =
      take 255 (aps_template (replicate 300 CHR ''a'') 5 ''default'')"
    by (simp add: ConstructAps_template)
  then have b: "length (ConstructAps (replicate 300 CHR ''a'') 5 ''default'') = 255"
    using a by simp
  from a b have "ConstructAps (replicate 300 CHR ''a'') 5 ''default'' \<noteq>
      aps_template (replicate 300 CHR ''a'') 5 ''default''"
    by auto
  with a b show ?thesis by simp
qed

subsection \<open>C9: the expiry is one day after the identifier\<close>

text \<open>
  C9. In every frame the expiry field, read big-endian, is the identifier plus 86400
  in 32-bit arithmetic, the identifier being the value of \<open>time(NULL)\<close> cut to 32
  bits, as the host stored it in the identifier field.
\<close>

theorem C9_expiry_one_day_after_identifier:
  "be_val32 (take 4 (drop 5 (EncodeNotification plat now m deviceToken body badge sound))) =
     obj_val32 plat (take 4 (drop 1 (EncodeNotification plat now m deviceToken body badge sound)))
       + 86400 \<and>
   obj_val32 plat (take 4 (drop 1 (EncodeNotification plat now m deviceToken body badge sound))) =
     word_of_int now \<and>
   unat (be_val32 (take 4 (drop 5 (EncodeNotification plat now m deviceToken body badge sound)))) =
     (unat (word_of_int now :: u32) + 86400) mod 2 ^ 32"
  by (simp only: EncodeNotification_layout frame_parts be_val32_bytes obj_val32_bytes)
     (simp add: unat_word_ariths)

subsection \<open>C10: short tokens are padded, long ones cut\<close>




end
